theory Spec2Isabelle
  imports Main "HOL-Library.Sublist"
begin

section \<open>JavaScript values used by the update script\<close>

text \<open>
  The script under verification is \<^verbatim>\<open>scripts/update-business-data.js\<close> (the closure-aware
  variant) together with its configuration \<^verbatim>\<open>scripts/business-data.js\<close>.

  Strings are sequences of bytes: the UTF-8 text that \<^verbatim>\<open>readFileSync(_, 'utf8')\<close> decodes and
  \<^verbatim>\<open>writeFileSync(_, _, 'utf8')\<close> encodes again. Every character the script itself tests
  (\<^verbatim>\<open><\<close>, \<^verbatim>\<open>></\<close>, \<^verbatim>\<open>:\<close>, \<^verbatim>\<open>-\<close>, white space) is ASCII, so matching on bytes and matching on
  UTF-16 code units agree, with one exception that is outside this model: \<^verbatim>\<open>\s\<close> also matches
  the non-ASCII Unicode spaces (U+00A0, U+FEFF, ...), here only the six ASCII ones.
  A value that may be \<^verbatim>\<open>null\<close> or \<^verbatim>\<open>undefined\<close> is an \<open>option\<close>.
\<close>

definition is_space :: "char \<Rightarrow> bool" where
  "is_space c = (c = CHR 0x20 \<or> c = CHR 0x09 \<or> c = CHR 0x0A \<or> c = CHR 0x0B \<or> c = CHR 0x0C \<or> c = CHR 0x0D)"

definition is_digit :: "char \<Rightarrow> bool" where
  "is_digit c = (c \<in> set ''0123456789'')"

text \<open>The value of a digit: its place among the ten digits.\<close>

definition digit_val :: "char \<Rightarrow> nat" where
  "digit_val c = length (takeWhile (\<lambda>d. d \<noteq> c) ''0123456789'')"

definition digit_char :: "nat \<Rightarrow> char" where
  "digit_char n = ''0123456789'' ! n"

text \<open>The value of a run of decimal digits, most significant first.\<close>

fun digits_val :: "nat \<Rightarrow> string \<Rightarrow> nat" where
  "digits_val acc [] = acc"
| "digits_val acc (c # cs) = digits_val (acc * 10 + digit_val c) cs"

text \<open>\<^verbatim>\<open>String(n)\<close> for a non-negative integer, and for any integer.\<close>

fun dec :: "nat \<Rightarrow> string" where
  "dec n = (if n < 10 then [digit_char n] else dec (n div 10) @ [digit_char (n mod 10)])"

declare dec.simps [simp del]

definition show_int :: "int \<Rightarrow> string" where
  "show_int i = (if i < 0 then CHR ''-'' # dec (nat (- i)) else dec (nat i))"

text \<open>
  \<^verbatim>\<open>parseInt(s, 10)\<close>: leading white space is skipped, one sign is read, then the longest run
  of digits; no digit gives \<^verbatim>\<open>NaN\<close>, here \<open>None\<close>. JavaScript numbers are doubles: the model
  is exact for values below \<open>2^53\<close>, which covers every time of day. The white space skipped
  is that of \<open>is_space\<close>.
\<close>

definition parseInt :: "string \<Rightarrow> int option" where
  "parseInt s =
     (let s1 = dropWhile is_space s;
          neg = (s1 \<noteq> [] \<and> hd s1 = CHR ''-'');
          s2 = (if s1 \<noteq> [] \<and> (hd s1 = CHR ''-'' \<or> hd s1 = CHR ''+'') then tl s1 else s1);
          ds = takeWhile is_digit s2
      in if ds = [] then None
         else Some (if neg then - int (digits_val 0 ds) else int (digits_val 0 ds)))"

text \<open>The remainder operator \<^verbatim>\<open>%\<close> of JavaScript truncates towards zero.\<close>

definition js_rem :: "int \<Rightarrow> int \<Rightarrow> int" where
  "js_rem a b = (if a < 0 then - ((- a) mod \<bar>b\<bar>) else a mod \<bar>b\<bar>)"

text \<open>\<^verbatim>\<open>s.split(c)\<close> for a one-character separator: always at least one piece.\<close>

fun split_on :: "char \<Rightarrow> string \<Rightarrow> string list" where
  "split_on c [] = [[]]"
| "split_on c (x # xs) =
     (if x = c then [] # split_on c xs
      else (case split_on c xs of [] \<Rightarrow> [[x]] | p # ps \<Rightarrow> (x # p) # ps))"

text \<open>\<^verbatim>\<open>arr[i]\<close>: \<^verbatim>\<open>undefined\<close> out of range.\<close>

definition nth_opt :: "'a list \<Rightarrow> nat \<Rightarrow> 'a option" where
  "nth_opt xs i = (if i < length xs then Some (xs ! i) else None)"

text \<open>A value spliced into a string: \<^verbatim>\<open>null\<close> and \<^verbatim>\<open>undefined\<close> print their names.\<close>

definition str_or :: "string \<Rightarrow> string option \<Rightarrow> string" where
  "str_or d v = (case v of None \<Rightarrow> d | Some s \<Rightarrow> s)"

text \<open>\<^verbatim>\<open>s.padStart(2, '0')\<close>.\<close>

definition padStart2 :: "string \<Rightarrow> string" where
  "padStart2 s = replicate (2 - length s) (CHR ''0'') @ s"

text \<open>\<^verbatim>\<open>xs.join(sep)\<close>.\<close>

fun join :: "string \<Rightarrow> string list \<Rightarrow> string" where
  "join sep [] = []"
| "join sep [x] = x"
| "join sep (x # y # ys) = x @ sep @ join sep (y # ys)"

text \<open>\<^verbatim>\<open>s.includes(p)\<close>.\<close>

fun str_includes :: "string \<Rightarrow> string \<Rightarrow> bool" where
  "str_includes [] p = (p = [])"
| "str_includes (x # xs) p = (prefix p (x # xs) \<or> str_includes xs p)"

section \<open>The configuration: \<^verbatim>\<open>business-data.js\<close>\<close>

record address =
  street :: string
  city :: string
  region :: string
  regionCode :: string
  postalCode :: string
  country :: string
  countryCode :: string

record phone =
  display :: string
  tel :: string

text \<open>
  The coordinates are doubles that the script only ever prints: a coordinate is held as
  the text that JavaScript prints for it.
\<close>

record coordinates =
  latitude :: string
  longitude :: string

record day_schedule =
  day :: string
  "open" :: "string option"
  close :: "string option"
  closed :: bool

record temporary_closure =
  startDate :: string
  endDate :: string
  message :: "string option"

record business_data =
  name :: string
  shortName :: string
  address :: address
  phone :: phone
  coordinates :: coordinates
  url :: string
  priceRange :: string
  description :: string
  tagline :: string
  hours :: "day_schedule list"
  defaultImage :: string
  servesCuisine :: "string option"
  temporaryClosure :: "temporary_closure option"

text \<open>The configuration as committed.\<close>

definition businessData :: business_data where
  "businessData = \<lparr>
     name = ''Christopher's Meat Market'',
     shortName = ''Christopher's'',
     address = \<lparr> street = ''6146 Perth Street'', city = ''Richmond'', region = ''Ontario'',
       regionCode = ''ON'', postalCode = ''K0A 2Z0'', country = ''CA'', countryCode = ''CA'' \<rparr>,
     phone = \<lparr> display = ''(613) 838-8800'', tel = ''+1-613-838-8800'' \<rparr>,
     coordinates = \<lparr> latitude = ''45.193608692634434'', longitude = ''-75.84403566715355'' \<rparr>,
     url = ''https://christophersmeatmarket.com'',
     priceRange = ''$$'',
     description = ''Family-owned butcher shop in Richmond, Ontario, specializing in quality free-range, grain-fed meats. Over 25 years of experience.'',
     tagline = ''Quality Products for Families'',
     hours = [
       \<lparr> day = ''Monday'', open = None, close = None, closed = True \<rparr>,
       \<lparr> day = ''Tuesday'', open = Some ''09:30'', close = Some ''17:00'', closed = False \<rparr>,
       \<lparr> day = ''Wednesday'', open = Some ''09:30'', close = Some ''17:00'', closed = False \<rparr>,
       \<lparr> day = ''Thursday'', open = Some ''09:30'', close = Some ''17:00'', closed = False \<rparr>,
       \<lparr> day = ''Friday'', open = Some ''09:30'', close = Some ''17:00'', closed = False \<rparr>,
       \<lparr> day = ''Saturday'', open = Some ''09:00'', close = Some ''17:00'', closed = False \<rparr>,
       \<lparr> day = ''Sunday'', open = None, close = None, closed = True \<rparr> ],
     defaultImage = ''img/slide-1.jpg'',
     servesCuisine = Some ''Butcher Shop'',
     temporaryClosure = None \<rparr>"

section \<open>Time and date formatting\<close>

text \<open>
  \<^verbatim>\<open>formatTime12Hour(time24)\<close>. The guard \<^verbatim>\<open>!time24\<close> holds for \<^verbatim>\<open>null\<close>, \<^verbatim>\<open>undefined\<close> and
  the empty string. \<^verbatim>\<open>NaN >= 12\<close> is false and \<^verbatim>\<open>NaN % 12 || 12\<close> is 12.
\<close>

definition formatTime12Hour :: "string option \<Rightarrow> string option" where
  "formatTime12Hour time24 =
     (case time24 of
        None \<Rightarrow> None
      | Some t \<Rightarrow>
          if t = [] then None
          else
            (let parts = split_on (CHR '':'') t;
                 hours = nth_opt parts 0;
                 minutes = nth_opt parts 1;
                 hour = parseInt (str_or ''undefined'' hours);
                 ampm = (case hour of None \<Rightarrow> ''am'' | Some h \<Rightarrow> if h \<ge> 12 then ''pm'' else ''am'');
                 hour12 = (case hour of None \<Rightarrow> 12
                           | Some h \<Rightarrow> if js_rem h 12 = 0 then 12 else js_rem h 12)
             in Some (show_int hour12 @ '':'' @ str_or ''undefined'' minutes @ '' '' @ ampm)))"

subsection \<open>The calendar behind \<^verbatim>\<open>Date\<close>\<close>

text \<open>
  A \<^verbatim>\<open>Date\<close> is read and written through its local fields only, so it is modelled as local
  wall-clock time: milliseconds since 1970-01-01T00:00:00 local time, on the proleptic
  Gregorian calendar of ECMAScript, in a zone without clock changes. \<open>None\<close> is the
  invalid date (time value \<^verbatim>\<open>NaN\<close>).
\<close>

definition msPerDay :: int where
  "msPerDay = 86400000"

definition is_leap :: "int \<Rightarrow> bool" where
  "is_leap y = (y mod 4 = 0 \<and> (y mod 100 \<noteq> 0 \<or> y mod 400 = 0))"

definition DayFromYear :: "int \<Rightarrow> int" where
  "DayFromYear y = 365 * (y - 1970) + (y - 1969) div 4 - (y - 1901) div 100 + (y - 1601) div 400"

text \<open>Days before the first of month \<open>m\<close> (1 to 12) within its year.\<close>

definition month_offset :: "bool \<Rightarrow> nat \<Rightarrow> int" where
  "month_offset leap m =
     int ([0, 31, 59, 90, 120, 151, 181, 212, 243, 273, 304, 334] ! (m - 1))
       + (if leap \<and> m > 2 then 1 else 0)"

text \<open>\<^verbatim>\<open>MakeDay(year, month, date)\<close> for a month in range: the date may overflow the month.\<close>

definition MakeDay :: "int \<Rightarrow> nat \<Rightarrow> int \<Rightarrow> int" where
  "MakeDay y m d = DayFromYear y + month_offset (is_leap y) m + d - 1"

text \<open>
  The year, month (1 to 12) and day of the month of a day number: the fields
  \<^verbatim>\<open>getFullYear()\<close>, \<^verbatim>\<open>getMonth() + 1\<close> and \<^verbatim>\<open>getDate()\<close>.
\<close>

definition civil_from_days :: "int \<Rightarrow> int \<times> nat \<times> nat" where
  "civil_from_days n =
     (let z = n + 719468;
          era = z div 146097;
          doe = z - era * 146097;
          yoe = (doe - doe div 1460 + doe div 36524 - doe div 146096) div 365;
          doy = doe - (365 * yoe + yoe div 4 - yoe div 100);
          mp = (5 * doy + 2) div 153;
          d = doy - (153 * mp + 2) div 5 + 1;
          m = (if mp < 10 then mp + 3 else mp - 9);
          y = yoe + era * 400 + (if m \<le> 2 then 1 else 0)
      in (y, nat m, nat d))"

definition getFullYear :: "int \<Rightarrow> int" where
  "getFullYear t = fst (civil_from_days (t div msPerDay))"

definition getMonth :: "int \<Rightarrow> nat" where
  "getMonth t = fst (snd (civil_from_days (t div msPerDay))) - 1"

definition getDate :: "int \<Rightarrow> nat" where
  "getDate t = snd (snd (civil_from_days (t div msPerDay)))"

definition getDay :: "int \<Rightarrow> nat" where
  "getDay t = nat ((t div msPerDay + 4) mod 7)"

text \<open>\<^verbatim>\<open>date.setDate(d)\<close>: the day within the month is replaced, the time of day kept.\<close>

definition setDate :: "int \<Rightarrow> int \<Rightarrow> int" where
  "setDate t d =
     MakeDay (getFullYear t) (getMonth t + 1) d * msPerDay + t mod msPerDay"

text \<open>\<^verbatim>\<open>today.setHours(0, 0, 0, 0)\<close>.\<close>

definition setHours0 :: "int \<Rightarrow> int" where
  "setHours0 t = t - t mod msPerDay"

text \<open>
  \<^verbatim>\<open>new Date(dateStr + 'T00:00:00')\<close> and \<^verbatim>\<open>new Date(dateStr + 'T23:59:59')\<close>: \<open>ms\<close> is the time
  of day that the script appends, in milliseconds. A string
  of the form \<^verbatim>\<open>YYYY-MM-DD\<close> with a month from 01 to 12 and a day from 01 to 31 is a date (V8,
  the engine of Node, lets the day overflow a shorter month). Every other string goes to
  an engine-specific fallback parser, which is not modelled: it is the invalid date here.
\<close>

definition parse_ymd :: "string \<Rightarrow> (int \<times> nat \<times> nat) option" where
  "parse_ymd dateStr =
     (if length dateStr = 10 \<and> list_all is_digit (take 4 dateStr) \<and> dateStr ! 4 = CHR ''-''
         \<and> list_all is_digit (take 2 (drop 5 dateStr)) \<and> dateStr ! 7 = CHR ''-''
         \<and> list_all is_digit (drop 8 dateStr)
      then
        (let y = digits_val 0 (take 4 dateStr);
             m = digits_val 0 (take 2 (drop 5 dateStr));
             d = digits_val 0 (drop 8 dateStr)
         in if 1 \<le> m \<and> m \<le> 12 \<and> 1 \<le> d \<and> d \<le> 31 then Some (int y, m, d) else None)
      else None)"

definition parseLocal :: "string \<Rightarrow> int \<Rightarrow> int option" where
  "parseLocal dateStr ms =
     (case parse_ymd dateStr of
        None \<Rightarrow> None
      | Some (y, m, d) \<Rightarrow> Some (MakeDay y m (int d) * msPerDay + ms))"

definition months :: "string list" where
  "months = [''January'', ''February'', ''March'', ''April'', ''May'', ''June'',
             ''July'', ''August'', ''September'', ''October'', ''November'', ''December'']"

definition days :: "string list" where
  "days = [''Sunday'', ''Monday'', ''Tuesday'', ''Wednesday'', ''Thursday'', ''Friday'', ''Saturday'']"

text \<open>On the invalid date every getter is \<^verbatim>\<open>NaN\<close>, and \<^verbatim>\<open>months[NaN]\<close> is \<^verbatim>\<open>undefined\<close>.\<close>

definition formatDate :: "string \<Rightarrow> string" where
  "formatDate dateStr =
     (case parseLocal dateStr 0 of
        None \<Rightarrow> ''undefined NaN, NaN''
      | Some date \<Rightarrow>
          str_or ''undefined'' (nth_opt months (getMonth date)) @ '' '' @ dec (getDate date)
            @ '', '' @ show_int (getFullYear date))"

definition formatDateWithDay :: "string \<Rightarrow> string" where
  "formatDateWithDay dateStr =
     (case parseLocal dateStr 0 of
        None \<Rightarrow> ''undefined, undefined NaN, NaN''
      | Some date \<Rightarrow>
          str_or ''undefined'' (nth_opt days (getDay date)) @ '', ''
            @ str_or ''undefined'' (nth_opt months (getMonth date)) @ '' '' @ dec (getDate date)
            @ '', '' @ show_int (getFullYear date))"

definition getNextDay :: "string \<Rightarrow> string" where
  "getNextDay dateStr =
     (case parseLocal dateStr 0 of
        None \<Rightarrow> ''NaN-NaN-NaN''
      | Some date0 \<Rightarrow>
          (let date = setDate date0 (int (getDate date0) + 1);
               year = getFullYear date;
               month = padStart2 (dec (getMonth date + 1));
               day = padStart2 (dec (getDate date))
           in show_int year @ ''-'' @ month @ ''-'' @ day))"

section \<open>Temporary closure\<close>

text \<open>
  \<^verbatim>\<open>getActiveTemporaryClosure()\<close>. The script reads the clock (\<^verbatim>\<open>new Date()\<close>); the model takes
  the reading as the argument \<open>now\<close>. A comparison with the invalid date is false.
\<close>

definition getActiveTemporaryClosure :: "business_data \<Rightarrow> int \<Rightarrow> temporary_closure option" where
  "getActiveTemporaryClosure bd now =
     (case temporaryClosure bd of
        None \<Rightarrow> None
      | Some tc \<Rightarrow>
          (let today = setHours0 now in
           case (parseLocal (startDate tc) 0, parseLocal (endDate tc) 86399000) of
             (Some startD, Some endD) \<Rightarrow> if today \<ge> startD \<and> today \<le> endD then Some tc else None
           | _ \<Rightarrow> None))"

section \<open>Structured data (JSON-LD)\<close>

text \<open>
  The object that \<^verbatim>\<open>generateStructuredData\<close> builds is kept as what \<^verbatim>\<open>JSON.stringify\<close> sees of
  it: its properties in insertion order (a property whose value is \<^verbatim>\<open>undefined\<close> is not
  printed, and is left out here).
\<close>

datatype json = JStr string | JNum string | JArr "json list" | JObj "(string \<times> json) list"

text \<open>
  \<^verbatim>\<open>hoursBySlot\<close> is an object used as a dictionary from \<^verbatim>\<open>open + '-' + close\<close> to the list of
  day names. Every key holds a \<^verbatim>\<open>-\<close>, so none is an array index or a property inherited from
  \<^verbatim>\<open>Object.prototype\<close>, and \<^verbatim>\<open>Object.keys\<close> lists the keys in insertion order: an association
  list that is appended to.
\<close>

fun push_slot :: "string \<Rightarrow> string \<Rightarrow> (string \<times> string list) list \<Rightarrow> (string \<times> string list) list" where
  "push_slot key d [] = [(key, [d])]"
| "push_slot key d ((k, ds) # rest) =
     (if k = key then (k, ds @ [d]) # rest else (k, ds) # push_slot key d rest)"

definition slot_key :: "day_schedule \<Rightarrow> string" where
  "slot_key hour = str_or ''null'' (open hour) @ ''-'' @ str_or ''null'' (close hour)"

definition hoursBySlot :: "day_schedule list \<Rightarrow> (string \<times> string list) list" where
  "hoursBySlot hs =
     foldl (\<lambda>slots hour. if \<not> closed hour then push_slot (slot_key hour) (day hour) slots else slots)
       [] hs"

definition jprop :: "string \<Rightarrow> string option \<Rightarrow> (string \<times> json) list" where
  "jprop k v = (case v of None \<Rightarrow> [] | Some s \<Rightarrow> [(k, JStr s)])"

definition slot_rule :: "string \<times> string list \<Rightarrow> json" where
  "slot_rule slot =
     (let parts = split_on (CHR ''-'') (fst slot);
          opens = nth_opt parts 0;
          closes = nth_opt parts 1
      in JObj ([(''@type'', JStr ''OpeningHoursSpecification''),
                (''dayOfWeek'', JArr (map JStr (snd slot)))]
               @ jprop ''opens'' opens @ jprop ''closes'' closes))"

text \<open>The array \<^verbatim>\<open>openingHoursSpecification\<close>: filled only when no closure is active.\<close>

definition openingHoursSpecification :: "business_data \<Rightarrow> int \<Rightarrow> json list" where
  "openingHoursSpecification bd now =
     (if getActiveTemporaryClosure bd now = None then map slot_rule (hoursBySlot (hours bd)) else [])"

record sd_options =
  opt_image :: "string option"
  opt_description :: "string option"

definition no_options :: sd_options where
  "no_options = \<lparr> opt_image = None, opt_description = None \<rparr>"

text \<open>A string is truthy when it is present and not empty.\<close>

definition truthy :: "string option \<Rightarrow> bool" where
  "truthy v = (v \<noteq> None \<and> v \<noteq> Some [])"

definition generateStructuredData :: "business_data \<Rightarrow> int \<Rightarrow> sd_options \<Rightarrow> (string \<times> json) list" where
  "generateStructuredData bd now options =
     (let ohs = openingHoursSpecification bd now;
          data0 =
            [(''@context'', JStr ''https://schema.org''),
             (''@type'', JStr ''ButcherShop''),
             (''name'', JStr (name bd)),
             (''image'', JStr (url bd @ ''/'' @
                (if truthy (opt_image options) then the (opt_image options) else defaultImage bd))),
             (''address'', JObj
                [(''@type'', JStr ''PostalAddress''),
                 (''streetAddress'', JStr (street (address bd))),
                 (''addressLocality'', JStr (city (address bd))),
                 (''addressRegion'', JStr (regionCode (address bd))),
                 (''postalCode'', JStr (postalCode (address bd))),
                 (''addressCountry'', JStr (countryCode (address bd)))]),
             (''geo'', JObj
                [(''@type'', JStr ''GeoCoordinates''),
                 (''latitude'', JNum (latitude (coordinates bd))),
                 (''longitude'', JNum (longitude (coordinates bd)))]),
             (''url'', JStr (url bd)),
             (''telephone'', JStr (tel (phone bd))),
             (''priceRange'', JStr (priceRange bd))];
          data1 = (if length ohs > 0 then data0 @ [(''openingHoursSpecification'', JArr ohs)] else data0);
          data2 = data1 @ [(''description'', JStr
                    (if truthy (opt_description options) then the (opt_description options)
                     else description bd))];
          data3 = (if truthy (servesCuisine bd)
                   then data2 @ [(''servesCuisine'', JStr (the (servesCuisine bd)))] else data2)
      in data3)"

text \<open>\<^verbatim>\<open>delete data.key\<close>.\<close>

definition delete_key :: "string \<Rightarrow> (string \<times> json) list \<Rightarrow> (string \<times> json) list" where
  "delete_key k kvs = filter (\<lambda>kv. fst kv \<noteq> k) kvs"

subsection \<open>\<^verbatim>\<open>JSON.stringify(data, null, 2)\<close>\<close>

definition hex_digit :: "nat \<Rightarrow> char" where
  "hex_digit n = ''0123456789abcdef'' ! n"

definition quote_char :: "char \<Rightarrow> string" where
  "quote_char c =
     (if c = CHR 0x22 then [CHR 0x5C, CHR 0x22]
      else if c = CHR 0x5C then [CHR 0x5C, CHR 0x5C]
      else if c = CHR 0x08 then [CHR 0x5C, CHR ''b'']
      else if c = CHR 0x0C then [CHR 0x5C, CHR ''f'']
      else if c = CHR 0x0A then [CHR 0x5C, CHR ''n'']
      else if c = CHR 0x0D then [CHR 0x5C, CHR ''r'']
      else if c = CHR 0x09 then [CHR 0x5C, CHR ''t'']
      else if (of_char c :: nat) < 32
        then [CHR 0x5C, CHR ''u'', CHR ''0'', CHR ''0'',
              hex_digit ((of_char c :: nat) div 16), hex_digit ((of_char c :: nat) mod 16)]
      else [c])"

definition quote :: "string \<Rightarrow> string" where
  "quote s = CHR 0x22 # concat (map quote_char s) @ [CHR 0x22]"

definition newline :: string where
  "newline = [CHR 0x0A]"

fun stringify :: "nat \<Rightarrow> json \<Rightarrow> string" where
  "stringify ind (JStr s) = quote s"
| "stringify ind (JNum n) = n"
| "stringify ind (JArr xs) =
     (if xs = [] then ''[]''
      else ''['' @ newline
        @ join ('','' @ newline)
            (map (\<lambda>x. replicate (ind + 2) (CHR '' '') @ stringify (ind + 2) x) xs)
        @ newline @ replicate ind (CHR '' '') @ '']'')"
| "stringify ind (JObj kvs) =
     (if kvs = [] then ''{}''
      else ''{'' @ newline
        @ join ('','' @ newline)
            (map (\<lambda>kv. replicate (ind + 2) (CHR '' '') @ quote (fst kv) @ '': ''
                         @ stringify (ind + 2) (snd kv)) kvs)
        @ newline @ replicate ind (CHR '' '') @ ''}'')"

definition generateStructuredDataJSON :: "business_data \<Rightarrow> int \<Rightarrow> sd_options \<Rightarrow> string" where
  "generateStructuredDataJSON bd now options = stringify 0 (JObj (generateStructuredData bd now options))"

section \<open>Markup fragments\<close>

text \<open>The en dash U+2013 of the source, as its three UTF-8 bytes.\<close>

definition en_dash :: string where
  "en_dash = [CHR 0xE2, CHR 0x80, CHR 0x93]"

definition warningIcon :: string where
  \<open>warningIcon = ''<svg xmlns="http://www.w3.org/2000/svg" width="24" height="24" fill="currentColor" viewBox="0 0 16 16" style="flex-shrink: 0;"><path d="M8.982 1.566a1.13 1.13 0 0 0-1.96 0L.165 13.233c-.457.778.091 1.767.98 1.767h13.713c.889 0 1.438-.99.98-1.767L8.982 1.566zM8 5c.535 0 .954.462.9.995l-.35 3.507a.552.552 0 0 1-1.1 0L7.1 5.995A.905.905 0 0 1 8 5zm.002 6a1 1 0 1 1 0 2 1 1 0 0 1 0-2z"/></svg>''\<close>

definition generateClosureCardHTML :: "business_data \<Rightarrow> int \<Rightarrow> string" where
  \<open>generateClosureCardHTML bd now =
     (case getActiveTemporaryClosure bd now of
        None \<Rightarrow> []
      | Some tempClosure \<Rightarrow>
          (let startFormatted = formatDate (startDate tempClosure);
               endFormatted = formatDate (endDate tempClosure);
               returnDateStr = getNextDay (endDate tempClosure);
               returnDateFormatted = formatDateWithDay returnDateStr;
               msg = (if truthy (message tempClosure) then the (message tempClosure)
                      else ''Temporarily closed'')
           in ''<div class="alert alert-warning d-flex align-items-start mb-3" role="alert" style="border-left: 4px solid #ffc107; background-color: #fff3cd; border-color: #ffc107;"><div style="color: #856404; margin-right: 10px; flex-shrink: 0;">''
              @ warningIcon
              @ ''</div><div style="flex: 1; color: #856404; word-wrap: break-word;"><div style="font-weight: bold; margin-bottom: 5px;">''
              @ msg @ ''</div><div style="margin-bottom: 5px;">'' @ startFormatted
              @ '' '' @ en_dash @ '' '' @ endFormatted
              @ ''</div><div>We will return to regular hours on <strong>'' @ returnDateFormatted
              @ ''</strong></div></div></div>''))\<close>

definition hours_row :: "day_schedule \<Rightarrow> string" where
  "hours_row hour =
     (let timeText =
            (if closed hour then ''Closed''
             else str_or ''null'' (formatTime12Hour (open hour)) @ '' '' @ en_dash @ '' ''
                    @ str_or ''null'' (formatTime12Hour (close hour)))
      in ''<tr><td><strong>'' @ day hour @ ''</strong></td><td>'' @ timeText @ ''</td></tr>'')"

definition generateHoursTableHTML :: "business_data \<Rightarrow> string" where
  "generateHoursTableHTML bd = foldl (\<lambda>html hour. html @ hours_row hour) [] (hours bd)"

definition generateAddressBarHTML :: "business_data \<Rightarrow> string" where
  "generateAddressBarHTML bd =
     street (address bd) @ '' | '' @ city (address bd) @ '', '' @ region (address bd) @ '' ''
       @ postalCode (address bd) @ '' | '' @ display (phone bd)"

section \<open>Regular expressions\<close>

text \<open>
  The seven patterns of the script are sequences of literals and of single character
  classes under \<^verbatim>\<open>*\<close>, \<^verbatim>\<open>+\<close> (greedy) and \<^verbatim>\<open>*?\<close> (lazy), cut into three capture groups. The
  matcher is the backtracking matcher of ECMAScript on such sequences: a greedy item tries
  the longest run first, a lazy item the shortest, and the first way that lets the rest of
  the pattern match wins. A match is the list of the pieces the items consumed.
\<close>

datatype cls = Space | NotLt | NotGt | AnyChar

fun in_cls :: "cls \<Rightarrow> char \<Rightarrow> bool" where
  "in_cls Space c = is_space c"
| "in_cls NotLt c = (c \<noteq> CHR ''<'')"
| "in_cls NotGt c = (c \<noteq> CHR ''>'')"
| "in_cls AnyChar c = True"

datatype atom = Lit string | Greedy cls nat | Lazy cls

fun first_some :: "('a \<Rightarrow> 'b option) \<Rightarrow> 'a list \<Rightarrow> 'b option" where
  "first_some f [] = None"
| "first_some f (x # xs) = (case f x of Some y \<Rightarrow> Some y | None \<Rightarrow> first_some f xs)"

fun match_here :: "atom list \<Rightarrow> string \<Rightarrow> string list option" where
  "match_here [] s = Some []"
| "match_here (Lit l # as) s =
     (if prefix l s then map_option (Cons l) (match_here as (drop (length l) s)) else None)"
| "match_here (Greedy c m # as) s =
     first_some (\<lambda>k. map_option (Cons (take k s)) (match_here as (drop k s)))
       (rev [m ..< Suc (length (takeWhile (in_cls c) s))])"
| "match_here (Lazy c # as) s =
     first_some (\<lambda>k. map_option (Cons (take k s)) (match_here as (drop k s)))
       [0 ..< Suc (length (takeWhile (in_cls c) s))]"

text \<open>A pattern: its items, each with the number of its capture group (0: in no group).\<close>

type_synonym regex = "(nat \<times> atom) list"

text \<open>\<^verbatim>\<open>regex.exec(s)\<close> without the \<^verbatim>\<open>g\<close> flag: the leftmost start at which the pattern matches.\<close>

definition regex_exec :: "regex \<Rightarrow> string \<Rightarrow> (nat \<times> string list) option" where
  "regex_exec re s =
     first_some (\<lambda>i. map_option (Pair i) (match_here (map snd re) (drop i s)))
       [0 ..< Suc (length s)]"

definition regex_test :: "regex \<Rightarrow> string \<Rightarrow> bool" where
  "regex_test re s = (regex_exec re s \<noteq> None)"

definition group :: "regex \<Rightarrow> string list \<Rightarrow> nat \<Rightarrow> string" where
  "group re ps g = concat (map snd (filter (\<lambda>x. fst (fst x) = g) (zip re ps)))"

text \<open>
  \<^verbatim>\<open>s.replace(regex, function(match, start, old, end) {...})\<close>: the first match is replaced
  by what the function returns, taken literally.
\<close>

definition str_replace :: "regex \<Rightarrow> (string \<Rightarrow> string \<Rightarrow> string \<Rightarrow> string) \<Rightarrow> string \<Rightarrow> string" where
  "str_replace re f s =
     (case regex_exec re s of
        None \<Rightarrow> s
      | Some (i, ps) \<Rightarrow>
          take i s @ f (group re ps 1) (group re ps 2) (group re ps 3)
            @ drop (i + length (concat ps)) s)"

definition END_AUTO_UPDATE :: string where
  "END_AUTO_UPDATE = ''<!-- END AUTO-UPDATE -->''"

definition structuredDataRegex :: regex where
  \<open>structuredDataRegex =
     [(1, Lit ''<!-- AUTO-UPDATE: Structured Data -->''), (1, Greedy Space 0),
      (1, Lit ''<script type="application/ld+json">''),
      (0, Greedy Space 0), (2, Lazy AnyChar), (0, Greedy Space 0),
      (3, Lit ''</script>''), (3, Greedy Space 0), (3, Lit END_AUTO_UPDATE)]\<close>

definition addressBarRegex :: regex where
  \<open>addressBarRegex =
     [(1, Lit ''<!-- AUTO-UPDATE: Address bar -->''), (1, Greedy Space 0),
      (1, Lit ''<div class="address-bar">''),
      (2, Greedy NotLt 1),
      (3, Lit ''</div>''), (3, Greedy Space 0), (3, Lit END_AUTO_UPDATE)]\<close>

definition navBrandRegex :: regex where
  \<open>navBrandRegex =
     [(1, Lit ''<!-- AUTO-UPDATE: Navigation brand -->''), (1, Greedy Space 0),
      (1, Lit ''<a class="navbar-brand"''), (1, Greedy NotGt 0), (1, Lit ''>''),
      (2, Greedy NotLt 1),
      (3, Lit ''</a>''), (3, Greedy Space 0), (3, Lit END_AUTO_UPDATE)]\<close>

definition brandHeaderRegex :: regex where
  \<open>brandHeaderRegex =
     [(1, Lit ''<!-- AUTO-UPDATE: Brand header -->''), (1, Greedy Space 0),
      (1, Lit ''<div class="brand">''),
      (2, Greedy NotLt 1),
      (3, Lit ''</div>''), (3, Greedy Space 0), (3, Lit END_AUTO_UPDATE)]\<close>

definition hoursTableRegex :: regex where
  \<open>hoursTableRegex =
     [(1, Lit ''<!-- AUTO-UPDATE: Business hours table -->''),
      (0, Greedy Space 0), (2, Lazy AnyChar), (0, Greedy Space 0),
      (3, Lit END_AUTO_UPDATE)]\<close>

definition phoneRegex :: regex where
  \<open>phoneRegex =
     [(1, Lit ''<!-- AUTO-UPDATE: Contact phone -->''), (1, Greedy Space 0),
      (1, Lit ''<p>Phone:<br><strong>''),
      (2, Greedy NotLt 1),
      (3, Lit ''</strong></p>''), (3, Greedy Space 0), (3, Lit END_AUTO_UPDATE)]\<close>

definition addressRegex :: regex where
  \<open>addressRegex =
     [(1, Lit ''<!-- AUTO-UPDATE: Contact address -->''), (1, Greedy Space 0),
      (1, Lit ''<p>Address:<br><strong>''),
      (2, Greedy NotLt 1), (2, Lit ''<br>''), (2, Greedy NotLt 1),
      (3, Lit ''</strong></p>''), (3, Greedy Space 0), (3, Lit END_AUTO_UPDATE)]\<close>

section \<open>The document patcher\<close>

text \<open>
  \<^verbatim>\<open>updateHTMLFile\<close> keeps two variables, \<^verbatim>\<open>content\<close> and \<^verbatim>\<open>updated\<close>; each block of the function
  is a step on the pair. The flag is set in the callback of \<^verbatim>\<open>replace\<close>, which runs exactly
  when the pattern matches, that is when the guarding \<^verbatim>\<open>test\<close> holds.
\<close>

text \<open>The lines of the JSON text, all but the first indented by four spaces.\<close>

fun indent_tail :: "string list \<Rightarrow> string list" where
  "indent_tail [] = []"
| "indent_tail (l # ls) = l # map (\<lambda>x. ''    '' @ x) ls"

definition indentedJSON :: "string \<Rightarrow> string" where
  "indentedJSON structuredDataJSON =
     join newline (indent_tail (split_on (CHR 0x0A) structuredDataJSON))"

definition updateStructuredData ::
  "business_data \<Rightarrow> int \<Rightarrow> string \<Rightarrow> string \<times> bool \<Rightarrow> string \<times> bool" where
  "updateStructuredData bd now filePath st =
     (let content = fst st in
      if regex_test structuredDataRegex content then
        (let isIndex = str_includes filePath ''index.html'';
             structuredDataJSON =
               (if \<not> isIndex
                then stringify 0 (JObj (delete_key ''servesCuisine'' (generateStructuredData bd now no_options)))
                else generateStructuredDataJSON bd now no_options)
         in (str_replace structuredDataRegex
               (\<lambda>start oldData end.
                  start @ newline @ ''    '' @ indentedJSON structuredDataJSON @ newline @ ''    '' @ end)
               content, True))
      else st)"

definition updateAddressBar :: "business_data \<Rightarrow> string \<times> bool \<Rightarrow> string \<times> bool" where
  "updateAddressBar bd st =
     (let content = fst st in
      if regex_test addressBarRegex content then
        (let addressBarHTML = generateAddressBarHTML bd
         in (str_replace addressBarRegex (\<lambda>start oldContent end. start @ addressBarHTML @ end) content,
             True))
      else st)"

definition updateNavBrand :: "business_data \<Rightarrow> string \<times> bool \<Rightarrow> string \<times> bool" where
  "updateNavBrand bd st =
     (let content = fst st in
      if regex_test navBrandRegex content then
        (str_replace navBrandRegex (\<lambda>start oldContent end. start @ shortName bd @ end) content, True)
      else st)"

definition updateBrandHeader :: "business_data \<Rightarrow> string \<times> bool \<Rightarrow> string \<times> bool" where
  "updateBrandHeader bd st =
     (let content = fst st in
      if regex_test brandHeaderRegex content then
        (str_replace brandHeaderRegex (\<lambda>start oldContent end. start @ name bd @ end) content, True)
      else st)"

definition hoursTableReplacement :: "business_data \<Rightarrow> int \<Rightarrow> string \<Rightarrow> string \<Rightarrow> string" where
  \<open>hoursTableReplacement bd now start end =
     (let closureCardHTML = generateClosureCardHTML bd now;
          hoursTableHTML = generateHoursTableHTML bd;
          tempClosure = getActiveTemporaryClosure bd now;
          result0 = start;
          result1 = (if closureCardHTML \<noteq> [] then result0 @ closureCardHTML else result0);
          result2 =
            (if tempClosure \<noteq> None
             then result1 @ ''<table class="business-hours-table" style="opacity: 0.7;"><caption style="caption-side: top; text-align: left; font-size: 0.875em; color: #6c757d; margin-bottom: 0.5rem; font-style: italic;">Regular hours (currently closed)</caption>''
                    @ hoursTableHTML @ ''</table>''
             else result1 @ ''<table class="business-hours-table">'' @ hoursTableHTML @ ''</table>'')
      in result2 @ end)\<close>

definition updateHoursTable :: "business_data \<Rightarrow> int \<Rightarrow> string \<times> bool \<Rightarrow> string \<times> bool" where
  "updateHoursTable bd now st =
     (let content = fst st in
      if regex_test hoursTableRegex content then
        (str_replace hoursTableRegex (\<lambda>start oldContent end. hoursTableReplacement bd now start end)
           content, True)
      else st)"

definition updatePhone :: "business_data \<Rightarrow> string \<times> bool \<Rightarrow> string \<times> bool" where
  "updatePhone bd st =
     (let content = fst st in
      if regex_test phoneRegex content then
        (str_replace phoneRegex (\<lambda>start oldContent end. start @ display (phone bd) @ end) content, True)
      else st)"

definition updateAddress :: "business_data \<Rightarrow> string \<times> bool \<Rightarrow> string \<times> bool" where
  "updateAddress bd st =
     (let content = fst st in
      if regex_test addressRegex content then
        (let addressHTML = street (address bd) @ ''<br>'' @ city (address bd) @ '', ''
               @ region (address bd) @ '' '' @ postalCode (address bd)
         in (str_replace addressRegex (\<lambda>start oldContent end. start @ addressHTML @ end) content, True))
      else st)"

text \<open>
  The body of \<^verbatim>\<open>updateHTMLFile\<close> between reading and writing the file: the new content and
  the flag \<^verbatim>\<open>updated\<close>. The hours table, the phone and the contact address are inside the
  block guarded by \<^verbatim>\<open>filePath.includes('contact.html')\<close>.
\<close>

definition patch :: "business_data \<Rightarrow> int \<Rightarrow> string \<Rightarrow> string \<Rightarrow> string \<times> bool" where
  "patch bd now filePath content0 =
     (let st1 = updateStructuredData bd now filePath (content0, False);
          st2 = updateAddressBar bd st1;
          st3 = updateNavBrand bd st2;
          st4 = updateBrandHeader bd st3
      in if str_includes filePath ''contact.html''
         then updateAddress bd (updatePhone bd (updateHoursTable bd now st4))
         else st4)"

text \<open>
  The file system is a map from paths to contents. \<^verbatim>\<open>readFileSync\<close> throws on a missing
  file; the file is written only when \<^verbatim>\<open>updated\<close> is set.
\<close>

datatype error = ENOENT

type_synonym files = "string \<rightharpoonup> string"

definition updateHTMLFile ::
  "business_data \<Rightarrow> int \<Rightarrow> string \<Rightarrow> files \<Rightarrow> error + (files \<times> bool)" where
  "updateHTMLFile bd now filePath fs =
     (case fs filePath of
        None \<Rightarrow> Inl ENOENT
      | Some content0 \<Rightarrow>
          (let st = patch bd now filePath content0
           in if snd st then Inr (fs(filePath \<mapsto> fst st), True) else Inr (fs, False)))"

section \<open>The entry point\<close>

text \<open>\<^verbatim>\<open>path.basename\<close> of a path without a trailing slash.\<close>

definition basename :: "string \<Rightarrow> string" where
  "basename p = rev (takeWhile (\<lambda>c. c \<noteq> CHR ''/'') (rev p))"

definition msg_updated :: string where
  "msg_updated = [CHR 0xE2, CHR 0x9C, CHR 0x93] @ '' Updated: ''"

definition msg_no_updates :: string where
  "msg_no_updates = [CHR 0xE2, CHR 0x9A, CHR 0xA0] @ '' No updates needed: ''"

definition msg_not_found :: string where
  "msg_not_found = [CHR 0xE2, CHR 0x9C, CHR 0x97] @ '' File not found: ''"

text \<open>
  The state of the loop over the files: the file system, \<^verbatim>\<open>updatedCount\<close> and the lines
  printed so far. An exception ends the run.
\<close>

definition visit ::
  "business_data \<Rightarrow> int \<Rightarrow> error + (files \<times> nat \<times> string list) \<Rightarrow> string
     \<Rightarrow> error + (files \<times> nat \<times> string list)" where
  "visit bd now acc filePath =
     (case acc of
        Inl e \<Rightarrow> Inl e
      | Inr (fs, updatedCount, out) \<Rightarrow>
          if fs filePath \<noteq> None then
            (case updateHTMLFile bd now filePath fs of
               Inl e \<Rightarrow> Inl e
             | Inr (fs', True) \<Rightarrow> Inr (fs', updatedCount + 1, out @ [msg_updated @ basename filePath])
             | Inr (fs', False) \<Rightarrow> Inr (fs', updatedCount, out @ [msg_no_updates @ basename filePath]))
          else Inr (fs, updatedCount, out @ [msg_not_found @ filePath]))"

text \<open>\<open>publicDir\<close> is \<^verbatim>\<open>path.join(__dirname, '..', 'public')\<close>, known only when the script runs.\<close>

definition main :: "business_data \<Rightarrow> int \<Rightarrow> string \<Rightarrow> files \<Rightarrow> error + (files \<times> string list)" where
  "main bd now publicDir fs =
     (let htmlFiles = map (\<lambda>f. publicDir @ ''/'' @ f)
            [''index.html'', ''contact.html'', ''specials.html'', ''services.html'']
      in case foldl (visit bd now) (Inr (fs, 0, [''Updating business data in HTML files...'' @ newline])) htmlFiles of
           Inl e \<Rightarrow> Inl e
         | Inr (fs', updatedCount, out) \<Rightarrow>
             Inr (fs', out @ [newline @ dec updatedCount @ '' file(s) updated successfully!'',
                              newline @ ''Next steps:'',
                              ''1. Review the changes'',
                              ''2. Test locally: npm start'',
                              ''3. Commit and deploy'']))"

section \<open>Definitions used to state the properties\<close>

text \<open>
  Grouping as the specification words it: the entries are grouped by key, the groups stand
  in the order in which their keys are first seen, and each group lists its members in
  their original order.
\<close>

fun group_first_seen :: "('k \<times> 'd) list \<Rightarrow> ('k \<times> 'd list) list" where
  "group_first_seen [] = []"
| "group_first_seen (x # r) =
     (fst x, snd x # map snd (filter (\<lambda>y. fst y = fst x) r))
       # group_first_seen (filter (\<lambda>y. fst y \<noteq> fst x) r)"

text \<open>The (open, close) pair and the day name of every day that is not closed.\<close>

definition open_pairs :: "day_schedule list \<Rightarrow> ((string \<times> string) \<times> string) list" where
  "open_pairs hs = map (\<lambda>h. ((the (open h), the (close h)), day h)) (filter (\<lambda>h. \<not> closed h) hs)"

text \<open>The opening-hours rule of one group.\<close>

definition rule_of :: "(string \<times> string) \<times> string list \<Rightarrow> json" where
  "rule_of g = JObj [(''@type'', JStr ''OpeningHoursSpecification''),
                     (''dayOfWeek'', JArr (map JStr (snd g))),
                     (''opens'', JStr (fst (fst g))), (''closes'', JStr (snd (fst g)))]"

text \<open>
  The invariant of the data model on one day: a day that is not closed has both times, and
  a time of day (\<^verbatim>\<open>HH:MM\<close>) holds no \<^verbatim>\<open>-\<close>.
\<close>

definition times_present :: "day_schedule \<Rightarrow> bool" where
  "times_present h = (closed h \<or>
     (open h \<noteq> None \<and> close h \<noteq> None
      \<and> CHR ''-'' \<notin> set (the (open h)) \<and> CHR ''-'' \<notin> set (the (close h))))"

definition pair_key :: "string \<times> string \<Rightarrow> string" where
  "pair_key p = fst p @ ''-'' @ snd p"

definition dash_free :: "string \<times> string \<Rightarrow> bool" where
  "dash_free p = (CHR ''-'' \<notin> set (fst p) \<and> CHR ''-'' \<notin> set (snd p))"

definition fold_slots :: "(string \<times> string list) list \<Rightarrow> (string \<times> string) list \<Rightarrow> (string \<times> string list) list" where
  "fold_slots acc kds = foldl (\<lambda>slots kd. push_slot (fst kd) (snd kd) slots) acc kds"

text \<open>The hours of the scenario: Monday and Sunday closed, Tuesday to Friday 09:30 to 17:00, Saturday 09:00 to 17:00.\<close>

definition scenario_hours :: "day_schedule list" where
  "scenario_hours = [
       \<lparr> day = ''Monday'', open = None, close = None, closed = True \<rparr>,
       \<lparr> day = ''Tuesday'', open = Some ''09:30'', close = Some ''17:00'', closed = False \<rparr>,
       \<lparr> day = ''Wednesday'', open = Some ''09:30'', close = Some ''17:00'', closed = False \<rparr>,
       \<lparr> day = ''Thursday'', open = Some ''09:30'', close = Some ''17:00'', closed = False \<rparr>,
       \<lparr> day = ''Friday'', open = Some ''09:30'', close = Some ''17:00'', closed = False \<rparr>,
       \<lparr> day = ''Saturday'', open = Some ''09:00'', close = Some ''17:00'', closed = False \<rparr>,
       \<lparr> day = ''Sunday'', open = None, close = None, closed = True \<rparr> ]"

text \<open>A profile with a closure from 2025-12-24 to 2026-01-02, and one with every day closed.\<close>

definition closure_example :: business_data where
  "closure_example = businessData \<lparr> temporaryClosure :=
     Some \<lparr> startDate = ''2025-12-24'', endDate = ''2026-01-02'', message = Some ''Closed for the holidays'' \<rparr> \<rparr>"

definition all_closed_example :: business_data where
  "all_closed_example = businessData \<lparr> hours := map (\<lambda>d. \<lparr> day = d, open = None, close = None, closed = True \<rparr>)
      [''Monday'', ''Tuesday'', ''Wednesday'', ''Thursday'', ''Friday'', ''Saturday'', ''Sunday''] \<rparr>"








text \<open>
  The calendar as the specification words it: the number of days of a month, the date one
  calendar day later, and a date written \<^verbatim>\<open>YYYY-MM-DD\<close> with zero padding.
\<close>

definition days_in_month :: "int \<Rightarrow> nat \<Rightarrow> nat" where
  "days_in_month y m =
     (if m = 2 then (if is_leap y then 29 else 28)
      else if m = 4 \<or> m = 6 \<or> m = 9 \<or> m = 11 then 30 else 31)"

definition next_date :: "int \<times> nat \<times> nat \<Rightarrow> int \<times> nat \<times> nat" where
  "next_date ymd =
     (case ymd of (y, m, d) \<Rightarrow>
        if d < days_in_month y m then (y, m, d + 1)
        else if m < 12 then (y, m + 1, 1)
        else (y + 1, 1, 1))"

definition zero_pad :: "nat \<Rightarrow> string \<Rightarrow> string" where
  "zero_pad w s = replicate (w - length s) (CHR ''0'') @ s"

definition iso_date :: "int \<times> nat \<times> nat \<Rightarrow> string" where
  "iso_date ymd =
     (case ymd of (y, m, d) \<Rightarrow>
        zero_pad 4 (show_int y) @ ''-'' @ zero_pad 2 (dec m) @ ''-'' @ zero_pad 2 (dec d))"

text \<open>
  Two counts used to relate a day number to its date: the days of the years 0 to \<open>y - 1\<close>
  plus the leap days up to year \<open>y\<close>, and the day of the year of the first of a month when
  the year is taken to start on 1 March.
\<close>

definition year_days :: "int \<Rightarrow> int" where
  "year_days y = 365 * y + y div 4 - y div 100 + y div 400"

definition march_offset :: "nat \<Rightarrow> int" where
  "march_offset m = [306, 337, 0, 31, 61, 92, 122, 153, 184, 214, 245, 275] ! (m - 1)"


section \<open>Time formatting\<close>

lemma split_on_no_sep: "c \<notin> set s \<Longrightarrow> split_on c s = [s]"
  by (induction s) auto

lemma split_on_first: "c \<notin> set a \<Longrightarrow> split_on c (a @ c # b) = a # split_on c b"
  by (induction a) auto

lemma split_on_nonempty: "split_on c s \<noteq> []"
  by (induction s) (auto split: list.splits)

lemma formatTime12Hour_general:
  assumes "parseInt hh = Some h" and "0 \<le> h" and "CHR '':'' \<notin> set hh" and "CHR '':'' \<notin> set mm"
  shows "formatTime12Hour (Some (hh @ '':'' @ mm)) =
           Some (show_int (if h mod 12 = 0 then 12 else h mod 12) @ '':'' @ mm @ '' ''
                   @ (if h < 12 then ''am'' else ''pm''))"
  using assms
  by (simp add: formatTime12Hour_def split_on_first split_on_no_sep nth_opt_def str_or_def js_rem_def Let_def)

lemma parseInt_17: "parseInt ''17'' = Some 17" by code_simp

text \<open>
  Claim C7. \<^verbatim>\<open>formatTime12Hour\<close> maps \<^verbatim>\<open>"00:00"\<close> to \<^verbatim>\<open>"12:00 am"\<close>, \<^verbatim>\<open>"12:00"\<close> to \<^verbatim>\<open>"12:00 pm"\<close>,
  \<^verbatim>\<open>"23:59"\<close> to \<^verbatim>\<open>"11:59 pm"\<close> and an absent input to an absent result. In general, for a
  time whose hour field reads as the number \<open>h\<close> with \<open>0 \<le> h < 2^53\<close> (the range in which a
  JavaScript number holds every integer exactly), the hour printed is \<open>h mod 12\<close> with 0
  printed as 12, the minutes are kept as they are, and the suffix is \<^verbatim>\<open>am\<close> if \<open>h < 12\<close> and
  \<^verbatim>\<open>pm\<close> otherwise.
\<close>

theorem formatTime12Hour_spec:
  "formatTime12Hour (Some ''00:00'') = Some ''12:00 am''
   \<and> formatTime12Hour (Some ''12:00'') = Some ''12:00 pm''
   \<and> formatTime12Hour (Some ''23:59'') = Some ''11:59 pm''
   \<and> formatTime12Hour None = None
   \<and> (\<forall>hh mm h. parseInt hh = Some h \<and> 0 \<le> h \<and> h < 9007199254740992
           \<and> CHR '':'' \<notin> set hh \<and> CHR '':'' \<notin> set mm \<longrightarrow>
         formatTime12Hour (Some (hh @ '':'' @ mm)) =
           Some (show_int (if h mod 12 = 0 then 12 else h mod 12) @ '':'' @ mm @ '' ''
                   @ (if h < 12 then ''am'' else ''pm'')))"
proof (intro conjI allI impI)
  show "formatTime12Hour (Some ''00:00'') = Some ''12:00 am''" by code_simp
  show "formatTime12Hour (Some ''12:00'') = Some ''12:00 pm''" by code_simp
  show "formatTime12Hour (Some ''23:59'') = Some ''11:59 pm''" by code_simp
  show "formatTime12Hour None = None" by (simp add: formatTime12Hour_def)
next
  fix hh mm h
  assume "parseInt hh = Some h \<and> 0 \<le> h \<and> h < 9007199254740992
           \<and> CHR '':'' \<notin> set hh \<and> CHR '':'' \<notin> set mm"
  then show "formatTime12Hour (Some (hh @ '':'' @ mm)) =
           Some (show_int (if h mod 12 = 0 then 12 else h mod 12) @ '':'' @ mm @ '' ''
                   @ (if h < 12 then ''am'' else ''pm''))"
    by (intro formatTime12Hour_general) auto
qed

theorem formatTime12Hour_spec_witness:
  "parseInt ''17'' = Some 17 \<and> formatTime12Hour (Some ''17:00'') = Some ''5:00 pm''"
proof -
  have "formatTime12Hour (Some (''17'' @ '':'' @ ''00'')) =
           Some (show_int (if (17::int) mod 12 = 0 then 12 else 17 mod 12) @ '':'' @ ''00'' @ '' ''
                   @ (if (17::int) < 12 then ''am'' else ''pm''))"
    using formatTime12Hour_spec [THEN conjunct2, THEN conjunct2, THEN conjunct2, THEN conjunct2,
        rule_format, of "''17''" 17 "''00''"] parseInt_17 by simp
  moreover have "show_int 5 = ''5''" by code_simp
  ultimately show ?thesis using parseInt_17 by simp
qed

text \<open>
  Claim C10. \<^verbatim>\<open>formatTime12Hour\<close> treats the empty string as an absent input: the result is
  absent exactly for \<^verbatim>\<open>null\<close>/\<^verbatim>\<open>undefined\<close> and for the empty string; every other string is
  formatted.
\<close>

theorem formatTime12Hour_falsy:
  "formatTime12Hour (Some []) = None \<and> formatTime12Hour None = None
   \<and> (\<forall>v. (formatTime12Hour v = None) = (v = None \<or> v = Some []))"
  by (auto simp: formatTime12Hour_def Let_def split: option.splits)

section \<open>Temporary closure\<close>

lemma setHours0_eq: "setHours0 now = (now div msPerDay) * msPerDay"
  by (simp add: setHours0_def minus_mod_eq_div_mult)

lemma day_le_iff: "(a * msPerDay \<le> b * msPerDay) = (a \<le> b)"
  by (simp add: msPerDay_def)

lemma day_le_end_iff: "(a * msPerDay \<le> b * msPerDay + 86399000) = (a \<le> b)"
proof
  assume h: "a * msPerDay \<le> b * msPerDay + 86399000"
  show "a \<le> b"
  proof (rule ccontr)
    assume "\<not> a \<le> b"
    then have "b + 1 \<le> a" by simp
    then show False using h unfolding msPerDay_def by linarith
  qed
next
  assume "a \<le> b"
  then show "a * msPerDay \<le> b * msPerDay + 86399000" unfolding msPerDay_def by linarith
qed

lemma parse_ymd_examples:
  "parse_ymd ''2025-12-24'' = Some (2025, 12, 24)" "parse_ymd ''2026-01-02'' = Some (2026, 1, 2)"
  by code_simp+

text \<open>
  Claim C9. Without a configured closure \<^verbatim>\<open>getActiveTemporaryClosure\<close> returns nothing. With a
  closure whose start and end are dates, it returns the closure exactly when the day of
  \<open>now\<close> (the time of day cut off) lies between the start day and the end day, both
  included, and nothing otherwise.
\<close>

theorem getActiveTemporaryClosure_spec:
  "(temporaryClosure bd = None \<longrightarrow> getActiveTemporaryClosure bd now = None)
   \<and> (\<forall>tc y1 m1 d1 y2 m2 d2.
         temporaryClosure bd = Some tc \<and> parse_ymd (startDate tc) = Some (y1, m1, d1)
           \<and> parse_ymd (endDate tc) = Some (y2, m2, d2) \<longrightarrow>
         getActiveTemporaryClosure bd now =
           (if MakeDay y1 m1 (int d1) \<le> now div msPerDay \<and> now div msPerDay \<le> MakeDay y2 m2 (int d2)
            then Some tc else None))"
  by (auto simp: getActiveTemporaryClosure_def parseLocal_def setHours0_eq day_le_iff day_le_end_iff Let_def)

theorem getActiveTemporaryClosure_spec_witness:
  "getActiveTemporaryClosure closure_example (MakeDay 2026 1 2 * msPerDay + 86399999)
     = temporaryClosure closure_example
   \<and> getActiveTemporaryClosure closure_example (MakeDay 2026 1 3 * msPerDay) = None
   \<and> getActiveTemporaryClosure businessData 0 = None"
proof -
  have tc: "temporaryClosure closure_example =
     Some \<lparr> startDate = ''2025-12-24'', endDate = ''2026-01-02'', message = Some ''Closed for the holidays'' \<rparr>"
    by (simp add: closure_example_def)
  have n: "temporaryClosure businessData = None" by (simp add: businessData_def)
  note a = getActiveTemporaryClosure_spec [of closure_example, THEN conjunct2, rule_format,
      of _ 2025 12 24 2026 1 2]
  have 1: "getActiveTemporaryClosure closure_example (MakeDay 2026 1 2 * msPerDay + 86399999)
     = temporaryClosure closure_example"
    using a [of _ "MakeDay 2026 1 2 * msPerDay + 86399999"] tc parse_ymd_examples
    by (simp add: MakeDay_def DayFromYear_def month_offset_def is_leap_def msPerDay_def)
  have 2: "getActiveTemporaryClosure closure_example (MakeDay 2026 1 3 * msPerDay) = None"
    using a [of _ "MakeDay 2026 1 3 * msPerDay"] tc parse_ymd_examples
    by (simp add: MakeDay_def DayFromYear_def month_offset_def is_leap_def msPerDay_def)
  have 3: "getActiveTemporaryClosure businessData 0 = None"
    using getActiveTemporaryClosure_spec [of businessData 0] n by simp
  show ?thesis using 1 2 3 by simp
qed

section \<open>Opening hours in the structured data\<close>

lemma openingHours_empty_if_all_closed:
  "list_all closed hs \<Longrightarrow> hoursBySlot hs = []"
proof -
  have "list_all closed hs \<Longrightarrow>
    foldl (\<lambda>slots hour. if \<not> closed hour then push_slot (slot_key hour) (day hour) slots else slots) acc hs = acc" for acc
    by (induction hs arbitrary: acc) auto
  then show "list_all closed hs \<Longrightarrow> hoursBySlot hs = []" by (simp add: hoursBySlot_def)
qed

lemma map_of_generateStructuredData_ohs:
  "map_of (generateStructuredData bd now options) ''openingHoursSpecification'' =
     (if openingHoursSpecification bd now = [] then None else Some (JArr (openingHoursSpecification bd now)))"
  by (simp add: generateStructuredData_def Let_def)

text \<open>
  Claim C6, as the code has it. When every day is closed the grouping yields no rule, and
  the structured data then has no \<^verbatim>\<open>openingHoursSpecification\<close> property at all: the script
  adds the property only when there is at least one rule.
\<close>

theorem all_closed_omits_opening_hours:
  "list_all closed (hours bd) \<longrightarrow>
     openingHoursSpecification bd now = []
     \<and> map_of (generateStructuredData bd now options) ''openingHoursSpecification'' = None"
  by (simp add: map_of_generateStructuredData_ohs openingHoursSpecification_def openingHours_empty_if_all_closed)

theorem all_closed_omits_opening_hours_witness:
  "list_all closed (hours all_closed_example)
   \<and> map_of (generateStructuredData all_closed_example 0 no_options) ''openingHoursSpecification'' = None"
  using all_closed_omits_opening_hours [of all_closed_example 0 no_options]
  by (simp add: all_closed_example_def)

text \<open>
  Claim C6 as stated says that the rules are rendered as an empty list. For the profile
  with every day closed and no closure the property is not the empty list.
\<close>

theorem all_closed_not_empty_list:
  "list_all closed (hours all_closed_example)
   \<and> getActiveTemporaryClosure all_closed_example 0 = None
   \<and> map_of (generateStructuredData all_closed_example 0 no_options) ''openingHoursSpecification''
       \<noteq> Some (JArr [])"
proof -
  have c: "list_all closed (hours all_closed_example)"
    by (simp add: all_closed_example_def)
  have "openingHoursSpecification all_closed_example 0 = []"
    using c by (simp add: openingHoursSpecification_def openingHours_empty_if_all_closed)
  then have "map_of (generateStructuredData all_closed_example 0 no_options) ''openingHoursSpecification'' = None"
    by (simp add: map_of_generateStructuredData_ohs)
  moreover have "getActiveTemporaryClosure all_closed_example 0 = None"
    by (simp add: getActiveTemporaryClosure_def all_closed_example_def businessData_def)
  ultimately show ?thesis using c by simp
qed

lemma push_slot_new: "k \<notin> fst ` set acc \<Longrightarrow> push_slot k d acc = acc @ [(k, [d])]"
  by (induction acc) auto

lemma push_slot_old:
  "k \<in> fst ` set acc \<Longrightarrow> distinct (map fst acc) \<Longrightarrow>
   push_slot k d acc = map (\<lambda>e. if fst e = k then (fst e, snd e @ [d]) else e) acc"
proof (induction acc)
  case Nil then show ?case by simp
next
  case (Cons a acc)
  obtain k' ds where a: "a = (k', ds)" by (cases a)
  show ?case
  proof (cases "k' = k")
    case True
    with Cons.prems a have "k \<notin> fst ` set acc" by auto
    then have "map (\<lambda>e. if fst e = k then (fst e, snd e @ [d]) else e) acc = acc"
      by (induction acc) auto
    with True a show ?thesis by simp
  next
    case False
    with Cons a show ?thesis by auto
  qed
qed

lemma fold_slots_char:
  "distinct (map fst acc) \<Longrightarrow>
   fold_slots acc kds =
     map (\<lambda>e. (fst e, snd e @ map snd (filter (\<lambda>y. fst y = fst e) kds))) acc
       @ group_first_seen (filter (\<lambda>y. fst y \<notin> fst ` set acc) kds)"
proof (induction kds arbitrary: acc)
  case Nil
  then show ?case by (simp add: fold_slots_def)
next
  case (Cons x r)
  obtain k d where x: "x = (k, d)" by (cases x)
  have step: "fold_slots acc (x # r) = fold_slots (push_slot k d acc) r"
    by (simp add: fold_slots_def x)
  show ?case
  proof (cases "k \<in> fst ` set acc")
    case True
    let ?acc = "map (\<lambda>e. if fst e = k then (fst e, snd e @ [d]) else e) acc"
    have p: "push_slot k d acc = ?acc" using True Cons.prems by (rule push_slot_old)
    have keys: "map fst ?acc = map fst acc" by (induction acc) auto
    then have keyset: "fst ` set ?acc = fst ` set acc" by (metis list.set_map)
    have d: "distinct (map fst ?acc)" unfolding keys by (rule Cons.prems)
    have m: "map (\<lambda>e. (fst e, snd e @ map snd (filter (\<lambda>y. fst y = fst e) r))) ?acc
           = map (\<lambda>e. (fst e, snd e @ map snd (filter (\<lambda>y. fst y = fst e) (x # r)))) acc"
      unfolding map_map by (rule map_cong) (auto simp: x)
    have f: "filter (\<lambda>y. fst y \<notin> fst ` set acc) (x # r) = filter (\<lambda>y. fst y \<notin> fst ` set acc) r"
      using True by (simp add: x)
    show ?thesis
      unfolding step p Cons.IH [OF d] keyset m f ..
  next
    case False
    have p: "push_slot k d acc = acc @ [(k, [d])]" using False by (rule push_slot_new)
    have d: "distinct (map fst (acc @ [(k, [d])]))" using False Cons.prems by auto
    have f1: "filter (\<lambda>y. fst y \<notin> fst ` set (acc @ [(k, [d])])) r
              = filter (\<lambda>y. fst y \<noteq> k) (filter (\<lambda>y. fst y \<notin> fst ` set acc) r)"
      by (induction r) auto
    have f2: "filter (\<lambda>y. fst y = k) (filter (\<lambda>y. fst y \<notin> fst ` set acc) r) = filter (\<lambda>y. fst y = k) r"
      using False by (induction r) auto
    have f3: "map (\<lambda>e. (fst e, snd e @ map snd (filter (\<lambda>y. fst y = fst e) (x # r)))) acc
            = map (\<lambda>e. (fst e, snd e @ map snd (filter (\<lambda>y. fst y = fst e) r))) acc"
      using False by (auto simp: x)
    have f4: "filter (\<lambda>y. fst y \<notin> fst ` set acc) (x # r) = x # filter (\<lambda>y. fst y \<notin> fst ` set acc) r"
      using False by (simp add: x)
    have g: "group_first_seen (x # filter (\<lambda>y. fst y \<notin> fst ` set acc) r)
             = (k, d # map snd (filter (\<lambda>y. fst y = k) r))
                 # group_first_seen (filter (\<lambda>y. fst y \<noteq> k) (filter (\<lambda>y. fst y \<notin> fst ` set acc) r))"
      using f2 by (simp add: x del: filter_filter)
    have m2: "map (\<lambda>e. (fst e, snd e @ map snd (filter (\<lambda>y. fst y = fst e) r))) (acc @ [(k, [d])])
            = map (\<lambda>e. (fst e, snd e @ map snd (filter (\<lambda>y. fst y = fst e) r))) acc
                @ [(k, d # map snd (filter (\<lambda>y. fst y = k) r))]"
      by simp
    show ?thesis
      unfolding step p Cons.IH [OF d] f1 f3 f4 g m2 by simp
  qed
qed

lemma hoursBySlot_fold:
  "hoursBySlot hs = fold_slots [] (map (\<lambda>h. (slot_key h, day h)) (filter (\<lambda>h. \<not> closed h) hs))"
proof -
  have "foldl (\<lambda>slots hour. if \<not> closed hour then push_slot (slot_key hour) (day hour) slots else slots) acc hs
        = fold_slots acc (map (\<lambda>h. (slot_key h, day h)) (filter (\<lambda>h. \<not> closed h) hs))" for acc
    by (induction hs arbitrary: acc) (auto simp: fold_slots_def)
  then show ?thesis by (simp add: hoursBySlot_def)
qed

lemma key_inj:
  assumes "CHR ''-'' \<notin> set a" "CHR ''-'' \<notin> set a'" "a @ ''-'' @ b = a' @ ''-'' @ b'"
  shows "a = a' \<and> b = b'"
proof -
  have "split_on (CHR ''-'') (a @ CHR ''-'' # b) = split_on (CHR ''-'') (a' @ CHR ''-'' # b')"
    using assms(3) by simp
  then have "a # split_on (CHR ''-'') b = a' # split_on (CHR ''-'') b'"
    unfolding split_on_first [OF assms(1)] split_on_first [OF assms(2)] .
  then have "a = a'" by simp
  with assms(3) show ?thesis by simp
qed

lemma group_first_seen_map_inj:
  "inj_on f (fst ` set xs) \<Longrightarrow>
   group_first_seen (map (\<lambda>x. (f (fst x), snd x)) xs) = map (\<lambda>g. (f (fst g), snd g)) (group_first_seen xs)"
proof (induction xs rule: group_first_seen.induct)
  case 1
  then show ?case by simp
next
  case (2 x r)
  let ?g = "\<lambda>x. (f (fst x), snd x)"
  have eq: "(f (fst y) = f (fst x)) = (fst y = fst x)" if "y \<in> set r" for y
  proof -
    have "fst y \<in> fst ` set (x # r)" "fst x \<in> fst ` set (x # r)" using that by simp_all
    then show ?thesis using inj_on_eq_iff [OF "2.prems"] by blast
  qed
  have fe: "filter (\<lambda>y. fst y = f (fst x)) (map ?g r) = map ?g (filter (\<lambda>y. fst y = fst x) r)"
  proof -
    have "filter (\<lambda>y. fst y = f (fst x)) (map ?g r) = map ?g (filter ((\<lambda>y. fst y = f (fst x)) \<circ> ?g) r)"
      by (rule filter_map)
    also have "filter ((\<lambda>y. fst y = f (fst x)) \<circ> ?g) r = filter (\<lambda>y. fst y = fst x) r"
      by (rule filter_cong) (simp_all add: eq)
    finally show ?thesis .
  qed
  have fn: "filter (\<lambda>y. fst y \<noteq> f (fst x)) (map ?g r) = map ?g (filter (\<lambda>y. fst y \<noteq> fst x) r)"
  proof -
    have "filter (\<lambda>y. fst y \<noteq> f (fst x)) (map ?g r) = map ?g (filter ((\<lambda>y. fst y \<noteq> f (fst x)) \<circ> ?g) r)"
      by (rule filter_map)
    also have "filter ((\<lambda>y. fst y \<noteq> f (fst x)) \<circ> ?g) r = filter (\<lambda>y. fst y \<noteq> fst x) r"
      by (rule filter_cong) (simp_all add: eq)
    finally show ?thesis .
  qed
  have "fst ` set (filter (\<lambda>y. fst y \<noteq> fst x) r) \<subseteq> fst ` set (x # r)" by auto
  then have inj: "inj_on f (fst ` set (filter (\<lambda>y. fst y \<noteq> fst x) r))"
    using "2.prems" by (rule inj_on_subset [rotated])
  have "group_first_seen (map ?g (x # r))
        = (f (fst x), snd x # map snd (filter (\<lambda>y. fst y = f (fst x)) (map ?g r)))
            # group_first_seen (filter (\<lambda>y. fst y \<noteq> f (fst x)) (map ?g r))"
    by simp
  also have "\<dots> = (f (fst x), snd x # map snd (map ?g (filter (\<lambda>y. fst y = fst x) r)))
            # map ?g (group_first_seen (filter (\<lambda>y. fst y \<noteq> fst x) r))"
    unfolding fe fn "2.IH" [OF inj] ..
  also have "\<dots> = map ?g (group_first_seen (x # r))"
    by (simp add: comp_def)
  finally show ?case .
qed

lemma group_first_seen_keys: "fst ` set (group_first_seen xs) \<subseteq> fst ` set xs"
proof (induction xs rule: group_first_seen.induct)
  case 1 then show ?case by simp
next
  case (2 x r)
  have "fst ` set (filter (\<lambda>y. fst y \<noteq> fst x) r) \<subseteq> fst ` set r" by auto
  with 2 show ?case by auto
qed

lemma slot_rule_pair_key: "dash_free p \<Longrightarrow> slot_rule (pair_key p, ds) = rule_of (p, ds)"
  by (simp add: slot_rule_def pair_key_def dash_free_def split_on_first split_on_no_sep
      nth_opt_def jprop_def rule_of_def Let_def)

lemma pair_key_inj: "inj_on pair_key (Collect dash_free)"
proof (rule inj_onI)
  fix p q assume "p \<in> Collect dash_free" "q \<in> Collect dash_free" "pair_key p = pair_key q"
  then have "fst p = fst q \<and> snd p = snd q"
    using key_inj [of "fst p" "fst q" "snd p" "snd q"] by (simp add: dash_free_def pair_key_def)
  then show "p = q" by (simp add: prod_eq_iff)
qed

lemma open_pairs_dash_free:
  "list_all times_present hs \<Longrightarrow> fst ` set (open_pairs hs) \<subseteq> Collect dash_free"
  by (induction hs) (auto simp: open_pairs_def times_present_def dash_free_def)

lemma slot_keys_open_pairs:
  "list_all times_present hs \<Longrightarrow>
   map (\<lambda>h. (slot_key h, day h)) (filter (\<lambda>h. \<not> closed h) hs)
     = map (\<lambda>x. (pair_key (fst x), snd x)) (open_pairs hs)"
proof (induction hs)
  case Nil
  then show ?case by (simp add: open_pairs_def)
next
  case (Cons h hs)
  then have ih: "map (\<lambda>h. (slot_key h, day h)) (filter (\<lambda>h. \<not> closed h) hs)
     = map (\<lambda>x. (pair_key (fst x), snd x)) (open_pairs hs)" by simp
  have k: "\<not> closed h \<Longrightarrow> slot_key h = pair_key (the (open h), the (close h))"
    using Cons.prems by (auto simp: times_present_def slot_key_def pair_key_def str_or_def)
  show ?case
  proof (cases "closed h")
    case True
    then show ?thesis using ih by (simp add: open_pairs_def)
  next
    case False
    then show ?thesis using ih k by (simp add: open_pairs_def)
  qed
qed

lemma hoursBySlot_grouping:
  assumes "list_all times_present hs"
  shows "map slot_rule (hoursBySlot hs) = map rule_of (group_first_seen (open_pairs hs))"
proof -
  have inj: "inj_on pair_key (fst ` set (open_pairs hs))"
    using pair_key_inj open_pairs_dash_free [OF assms] by (rule inj_on_subset)
  have "hoursBySlot hs = group_first_seen (map (\<lambda>x. (pair_key (fst x), snd x)) (open_pairs hs))"
    unfolding hoursBySlot_fold slot_keys_open_pairs [OF assms]
    by (simp add: fold_slots_char)
  also have "\<dots> = map (\<lambda>g. (pair_key (fst g), snd g)) (group_first_seen (open_pairs hs))"
    using inj by (rule group_first_seen_map_inj)
  finally have "map slot_rule (hoursBySlot hs)
     = map (\<lambda>g. slot_rule (pair_key (fst g), snd g)) (group_first_seen (open_pairs hs))"
    by (simp add: comp_def)
  also have "\<dots> = map rule_of (group_first_seen (open_pairs hs))"
  proof (rule map_cong [OF refl])
    fix g assume "g \<in> set (group_first_seen (open_pairs hs))"
    then have "fst g \<in> Collect dash_free"
      using group_first_seen_keys [of "open_pairs hs"] open_pairs_dash_free [OF assms] by blast
    then show "slot_rule (pair_key (fst g), snd g) = rule_of g"
      using slot_rule_pair_key [of "fst g" "snd g"] by simp
  qed
  finally show ?thesis .
qed

lemma scenario_groups:
  "list_all times_present scenario_hours"
  "group_first_seen (open_pairs scenario_hours) =
     [((''09:30'', ''17:00''), [''Tuesday'', ''Wednesday'', ''Thursday'', ''Friday'']),
      ((''09:00'', ''17:00''), [''Saturday''])]"
  by (simp_all add: scenario_hours_def times_present_def open_pairs_def)

text \<open>
  Claim C5. When no closure is active and the hours satisfy the invariant of the data
  model, the opening-hours rules are the groups of the days that are not closed, by equal
  (open, close) pair, in the order in which the pairs are first seen, each rule listing
  the day names of its group. For the hours of the scenario these are exactly two rules,
  Tuesday to Friday first, then Saturday.
\<close>

theorem openingHours_grouping:
  "(getActiveTemporaryClosure bd now = None \<and> list_all times_present (hours bd) \<longrightarrow>
      openingHoursSpecification bd now = map rule_of (group_first_seen (open_pairs (hours bd))))
   \<and> (getActiveTemporaryClosure bd now = None \<and> hours bd = scenario_hours \<longrightarrow>
      openingHoursSpecification bd now =
        [rule_of ((''09:30'', ''17:00''), [''Tuesday'', ''Wednesday'', ''Thursday'', ''Friday'']),
         rule_of ((''09:00'', ''17:00''), [''Saturday''])]
      \<and> map_of (generateStructuredData bd now options) ''openingHoursSpecification'' =
          Some (JArr [rule_of ((''09:30'', ''17:00''), [''Tuesday'', ''Wednesday'', ''Thursday'', ''Friday'']),
                      rule_of ((''09:00'', ''17:00''), [''Saturday''])]))"
proof (intro conjI impI)
  assume a: "getActiveTemporaryClosure bd now = None \<and> list_all times_present (hours bd)"
  then show "openingHoursSpecification bd now = map rule_of (group_first_seen (open_pairs (hours bd)))"
    by (simp add: openingHoursSpecification_def hoursBySlot_grouping)
next
  assume a: "getActiveTemporaryClosure bd now = None \<and> hours bd = scenario_hours"
  then show r: "openingHoursSpecification bd now =
        [rule_of ((''09:30'', ''17:00''), [''Tuesday'', ''Wednesday'', ''Thursday'', ''Friday'']),
         rule_of ((''09:00'', ''17:00''), [''Saturday''])]"
    by (simp add: openingHoursSpecification_def hoursBySlot_grouping scenario_groups)
  show "map_of (generateStructuredData bd now options) ''openingHoursSpecification'' =
          Some (JArr [rule_of ((''09:30'', ''17:00''), [''Tuesday'', ''Wednesday'', ''Thursday'', ''Friday'']),
                      rule_of ((''09:00'', ''17:00''), [''Saturday''])])"
    by (simp add: generateStructuredData_def Let_def r)
qed

theorem openingHours_grouping_witness:
  "getActiveTemporaryClosure businessData 0 = None \<and> hours businessData = scenario_hours
   \<and> list_all times_present (hours businessData)
   \<and> openingHoursSpecification businessData 0 =
        [rule_of ((''09:30'', ''17:00''), [''Tuesday'', ''Wednesday'', ''Thursday'', ''Friday'']),
         rule_of ((''09:00'', ''17:00''), [''Saturday''])]"
proof -
  have c: "getActiveTemporaryClosure businessData 0 = None"
    by (simp add: getActiveTemporaryClosure_def businessData_def)
  have h: "hours businessData = scenario_hours"
    by (simp add: businessData_def scenario_hours_def)
  show ?thesis
    using openingHours_grouping [of businessData 0 no_options] c h scenario_groups by simp
qed


section \<open>Facts about the matcher\<close>


lemma first_some_None: "(\<And>x. x \<in> set xs \<Longrightarrow> f x = None) \<Longrightarrow> first_some f xs = None"
  by (induction xs) auto

lemma first_some_skip:
  "(\<And>x. x \<in> set pre \<Longrightarrow> f x = None) \<Longrightarrow> first_some f (pre @ xs) = first_some f xs"
  by (induction pre) auto

lemma first_some_hit:
  "(\<And>x. x \<in> set pre \<Longrightarrow> f x = None) \<Longrightarrow> f x = Some y \<Longrightarrow> first_some f (pre @ x # xs) = Some y"
  by (simp add: first_some_skip)

declare match_here.simps [simp del]

lemma match_Lit: "match_here (Lit l # as) (l @ s) = map_option (Cons l) (match_here as s)"
  by (simp add: match_here.simps)

lemma match_Lit_fail: "\<not> prefix l s \<Longrightarrow> match_here (Lit l # as) s = None"
  by (simp add: match_here.simps)

lemma takeWhile_run:
  "list_all P w \<Longrightarrow> (t = [] \<or> \<not> P (hd t)) \<Longrightarrow> takeWhile P (w @ t) = w"
  by (induction w) (auto simp: neq_Nil_conv takeWhile_eq_Nil_iff)

text \<open>A greedy run whose full length lets the rest match.\<close>

lemma match_Greedy_full:
  assumes "list_all (in_cls c) w" "t = [] \<or> \<not> in_cls c (hd t)" "m \<le> length w"
    and "match_here as t = Some ps"
  shows "match_here (Greedy c m # as) (w @ t) = Some (w # ps)"
proof -
  let ?F = "\<lambda>k. map_option (Cons (take k (w @ t))) (match_here as (drop k (w @ t)))"
  have tw: "takeWhile (in_cls c) (w @ t) = w" using assms(1,2) by (rule takeWhile_run)
  have "match_here (Greedy c m # as) (w @ t) = first_some ?F (rev [m ..< Suc (length w)])"
    by (simp only: match_here.simps tw)
  also have "rev [m ..< Suc (length w)] = length w # rev [m ..< length w]"
    using assms(3) by simp
  also have "first_some ?F (length w # rev [m ..< length w]) = Some (w # ps)"
    using assms(4) by simp
  finally show ?thesis .
qed

text \<open>A greedy run followed by a literal that starts outside the class: only the full run can work.\<close>

lemma match_Greedy_Lit:
  assumes "l \<noteq> []" "\<not> in_cls c (hd l)"
  shows "match_here (Greedy c m # Lit l # as) s =
     (let w = takeWhile (in_cls c) s in
      if m \<le> length w \<and> prefix l (drop (length w) s)
      then map_option (\<lambda>ps. w # l # ps) (match_here as (drop (length w + length l) s))
      else None)"
proof -
  let ?w = "takeWhile (in_cls c) s"
  let ?f = "\<lambda>k. map_option (Cons (take k s)) (match_here (Lit l # as) (drop k s))"
  have short: "?f k = None" if "k < length ?w" for k
  proof -
    have ks: "k < length s" using that length_takeWhile_le [of "in_cls c" s] by linarith
    then have ne: "drop k s \<noteq> []" by simp
    have "hd (drop k s) = s ! k" using ks by (simp add: hd_drop_conv_nth)
    moreover have "s ! k = ?w ! k" using that by (simp add: takeWhile_nth)
    moreover have "in_cls c (?w ! k)" using that by (metis nth_mem set_takeWhileD)
    ultimately have "in_cls c (hd (drop k s))" by simp
    then have "\<not> prefix l (drop k s)"
      using assms ne by (cases l; cases "drop k s") auto
    then show ?thesis by (simp add: match_Lit_fail)
  qed
  have main: "match_here (Greedy c m # Lit l # as) s = first_some ?f (rev [m ..< Suc (length ?w)])"
    by (simp only: match_here.simps)
  show ?thesis
  proof (cases "m \<le> length ?w")
    case False
    then have "rev [m ..< Suc (length ?w)] = []" by simp
    then show ?thesis using False unfolding main by (simp add: Let_def)
  next
    case True
    have "rev [m ..< Suc (length ?w)] = length ?w # rev [m ..< length ?w]" using True by simp
    then have "match_here (Greedy c m # Lit l # as) s
        = (case ?f (length ?w) of Some y \<Rightarrow> Some y | None \<Rightarrow> first_some ?f (rev [m ..< length ?w]))"
      unfolding main by simp
    also have "first_some ?f (rev [m ..< length ?w]) = None"
      by (rule first_some_None) (use short in auto)
    also have "(case ?f (length ?w) of Some y \<Rightarrow> Some y | None \<Rightarrow> None) = ?f (length ?w)"
      by (simp split: option.splits)
    also have "?f (length ?w) = (if prefix l (drop (length ?w) s)
      then map_option (\<lambda>ps. ?w # l # ps) (match_here as (drop (length ?w + length l) s)) else None)"
      by (simp add: match_here.simps option.map_comp comp_def add.commute takeWhile_eq_take [symmetric])
    finally show ?thesis using True by (simp add: Let_def)
  qed
qed

lemma upt_split: "a \<le> n \<Longrightarrow> [0 ..< Suc n] = [0 ..< a] @ a # [Suc a ..< Suc n]"
proof -
  assume a: "a \<le> n"
  have "[0 ..< a + (Suc n - a)] = [0 ..< a] @ [a ..< a + (Suc n - a)]"
    by (rule upt_add_eq_append) simp
  moreover have "a + (Suc n - a) = Suc n" using a by simp
  moreover have "[a ..< Suc n] = a # [Suc a ..< Suc n]" using a by (simp add: upt_conv_Cons del: upt_Suc)
  ultimately show ?thesis by simp
qed

lemma match_Lazy_first:
  assumes "j \<le> length v" "match_here C (drop j v) = Some ps"
    and "\<And>i. i < j \<Longrightarrow> match_here C (drop i v) = None"
  shows "match_here (Lazy AnyChar # C) v = Some (take j v # ps)"
proof -
  let ?G = "\<lambda>k. map_option (Cons (take k v)) (match_here C (drop k v))"
  have tw: "takeWhile (in_cls AnyChar) v = v" by (induction v) auto
  have "match_here (Lazy AnyChar # C) v = first_some ?G [0 ..< Suc (length v)]"
    by (simp only: match_here.simps tw)
  also have "[0 ..< Suc (length v)] = [0 ..< j] @ j # [Suc j ..< Suc (length v)]"
    using assms(1) by (rule upt_split)
  also have "first_some ?G ([0 ..< j] @ j # [Suc j ..< Suc (length v)]) = Some (take j v # ps)"
    by (rule first_some_hit) (use assms in auto)
  finally show ?thesis .
qed

lemma match_ws_Lazy:
  assumes "n0 = length (takeWhile is_space u)" "n0 \<le> p0" "p0 \<le> length u"
    and hit: "match_here C (drop p0 u) = Some ps0"
    and miss: "\<And>p. n0 \<le> p \<Longrightarrow> p < p0 \<Longrightarrow> match_here C (drop p u) = None"
  shows "match_here (Greedy Space 0 # Lazy AnyChar # C) u
         = Some (take n0 u # take (p0 - n0) (drop n0 u) # ps0)"
proof -
  let ?F = "\<lambda>k. map_option (Cons (take k u)) (match_here (Lazy AnyChar # C) (drop k u))"
  have lz: "match_here (Lazy AnyChar # C) (drop n0 u) = Some (take (p0 - n0) (drop n0 u) # ps0)"
  proof (rule match_Lazy_first)
    show "p0 - n0 \<le> length (drop n0 u)" using assms(2,3) by simp
    show "match_here C (drop (p0 - n0) (drop n0 u)) = Some ps0" using assms(2) hit by simp
    fix i assume "i < p0 - n0"
    then show "match_here C (drop i (drop n0 u)) = None" using miss [of "n0 + i"] by (simp add: add.commute)
  qed
  have "match_here (Greedy Space 0 # Lazy AnyChar # C) u = first_some ?F (rev [0 ..< Suc n0])"
    by (simp only: match_here.simps assms(1) in_cls.simps [abs_def])
  also have "rev [0 ..< Suc n0] = n0 # rev [0 ..< n0]" by simp
  also have "first_some ?F (n0 # rev [0 ..< n0]) = Some (take n0 u # take (p0 - n0) (drop n0 u) # ps0)"
    using lz by simp
  finally show ?thesis .
qed

lemma takeWhile_length_le_index:
  assumes "i < length u" "\<not> P (u ! i)"
  shows "length (takeWhile P u) \<le> i"
proof (rule ccontr)
  assume "\<not> length (takeWhile P u) \<le> i"
  then have "i < length (takeWhile P u)" by simp
  then have "P (takeWhile P u ! i)" by (metis nth_mem set_takeWhileD)
  moreover have "takeWhile P u ! i = u ! i" using \<open>i < length (takeWhile P u)\<close> by (rule takeWhile_nth)
  ultimately show False using assms(2) by simp
qed

text \<open>
  The lazy interior, with the white space around it, ends where the closing literal
  first occurs.
\<close>

lemma match_lazy_region:
  assumes L: "l \<noteq> []" "\<not> is_space (hd l)"
    and first: "\<And>q. q < length mid \<Longrightarrow> \<not> prefix l (drop q (mid @ l @ t))"
    and rest: "match_here as t = Some ps"
  shows "\<exists>a b c. match_here (Greedy Space 0 # Lazy AnyChar # Greedy Space 0 # Lit l # as) (mid @ l @ t)
                   = Some (a # b # c # l # ps) \<and> a @ b @ c = mid"
proof -
  define u where "u = mid @ l @ t"
  define C where "C = Greedy Space 0 # Lit l # as"
  define n0 where "n0 = length (takeWhile is_space u)"
  have first': "\<And>q. q < length mid \<Longrightarrow> \<not> prefix l (drop q u)"
    using first by (simp add: u_def)
  have Lc: "\<not> in_cls Space (hd l)" using L(2) by simp
  have Cv: "match_here C v =
     (let w = takeWhile is_space v in
      if prefix l (drop (length w) v)
      then map_option (\<lambda>ps. w # l # ps) (match_here as (drop (length w + length l) v))
      else None)" for v
    unfolding C_def using match_Greedy_Lit [OF L(1) Lc, of 0 as v] by (simp add: in_cls.simps [abs_def])
  have umid: "u ! length mid = hd l" using L(1) by (simp add: u_def nth_append hd_conv_nth)
  have ulen: "length mid < length u" using L(1) by (simp add: u_def)
  have udrop: "drop (length mid) u = l @ t" by (simp add: u_def)
  have utake: "take (length mid) u = mid" by (simp add: u_def)
  have n0: "n0 \<le> length mid"
    unfolding n0_def using takeWhile_length_le_index [OF ulen, of is_space] umid L(2) by simp
  have atmid: "match_here C (drop (length mid) u) = Some ([] # l # ps)"
  proof -
    have "takeWhile is_space (l @ t) = []" using L by (cases l) auto
    then show ?thesis using rest by (simp add: Cv udrop)
  qed
  define Q where "Q p = (n0 \<le> p \<and> match_here C (drop p u) \<noteq> None)" for p
  define p0 where "p0 = (LEAST p. Q p)"
  have Qmid: "Q (length mid)" using n0 atmid by (simp add: Q_def)
  have Qp0: "Q p0" unfolding p0_def using Qmid by (rule LeastI)
  have p0le: "p0 \<le> length mid" unfolding p0_def using Qmid by (rule Least_le)
  have n0p0: "n0 \<le> p0" using Qp0 by (simp add: Q_def)
  have miss: "match_here C (drop p u) = None" if "n0 \<le> p" "p < p0" for p
  proof (rule ccontr)
    assume "match_here C (drop p u) \<noteq> None"
    then have "Q p" using that(1) by (simp add: Q_def)
    then have "p0 \<le> p" unfolding p0_def by (rule Least_le)
    then show False using that(2) by simp
  qed
  define v where "v = drop p0 u"
  define w where "w = takeWhile is_space v"
  from Qp0 have hitC: "match_here C v \<noteq> None" by (simp add: Q_def v_def)
  then have pre: "prefix l (drop (length w) v)"
    unfolding Cv [of v] w_def by (simp add: Let_def split: if_splits)
  have dd: "drop k v = drop (p0 + k) u" for k by (simp add: v_def add.commute)
  have ge: "length mid \<le> p0 + length w"
  proof (rule ccontr)
    assume "\<not> length mid \<le> p0 + length w"
    then have "p0 + length w < length mid" by simp
    then have "\<not> prefix l (drop (p0 + length w) u)" by (rule first')
    then show False using pre by (simp add: dd)
  qed
  have le: "p0 + length w \<le> length mid"
  proof -
    have a: "length mid - p0 < length v" using ulen p0le by (simp add: v_def)
    have "v ! (length mid - p0) = u ! length mid" using p0le ulen by (simp add: v_def)
    then have b: "\<not> is_space (v ! (length mid - p0))" using umid L(2) by simp
    have "length w \<le> length mid - p0" unfolding w_def using a b by (rule takeWhile_length_le_index)
    then show ?thesis using p0le by simp
  qed
  have eq: "p0 + length w = length mid" using ge le by simp
  have dr: "drop (length w + length l) v = t"
  proof -
    have "drop (length w + length l) v = drop (length mid + length l) u"
      using eq by (simp add: dd add.assoc [symmetric])
    also have "\<dots> = t" by (simp add: u_def)
    finally show ?thesis .
  qed
  have hit: "match_here C (drop p0 u) = Some (w # l # ps)"
    using pre rest unfolding v_def [symmetric] Cv [of v] w_def [symmetric] by (simp add: Let_def dr)
  have m: "match_here (Greedy Space 0 # Lazy AnyChar # C) u
        = Some (take n0 u # take (p0 - n0) (drop n0 u) # w # l # ps)"
    using n0_def n0p0 _ hit miss
  proof (rule match_ws_Lazy)
    show "p0 \<le> length u" using p0le ulen by simp
  qed
  have cat: "take n0 u @ take (p0 - n0) (drop n0 u) @ w = mid"
  proof -
    have 1: "take n0 u @ take (p0 - n0) (drop n0 u) = take p0 u"
      using n0p0 by (metis le_add_diff_inverse take_add)
    have 2: "w = take (length w) v" unfolding w_def by (rule takeWhile_eq_take)
    have "take p0 u @ take (length w) v = take (p0 + length w) u" by (simp add: take_add v_def)
    also have "\<dots> = mid" unfolding eq by (rule utake)
    finally have "take p0 u @ w = mid" using 2 by simp
    then show ?thesis using 1 by (metis append.assoc)
  qed
  show ?thesis using m cat unfolding u_def C_def by blast
qed



lemma replace_at:
  assumes "regex_exec re (pre @ R @ post) = Some (length pre, ps)" "length (concat ps) = length R"
  shows "str_replace re f (pre @ R @ post) = pre @ f (group re ps 1) (group re ps 2) (group re ps 3) @ post"
  using assms by (simp add: str_replace_def)

lemma replace_none: "regex_exec re s = None \<Longrightarrow> str_replace re f s = s"
  by (simp add: str_replace_def)











section \<open>When a document is rewritten\<close>












section \<open>The hours table during a closure\<close>









end
